theory Spec2Isabelle
  imports Complex_Main
begin

section \<open>Exceptions as values\<close>

text \<open>
  The service (\<^verbatim>\<open>src/main.py\<close>) signals failure with Python exceptions. Each
  exception class that the request boundary of \<^verbatim>\<open>get_youtube_caption\<close> distinguishes
  is a constructor; a function that can raise returns \<open>error + 'a\<close>, with \<open>Inl\<close> for
  the raised exception.
  \<^item> \<open>HTTPException status detail\<close>: FastAPI's \<^verbatim>\<open>HTTPException(status_code, detail)\<close>;
  \<^item> \<open>VideoUnavailable\<close>, \<open>TranscriptsDisabled\<close>, \<open>NoTranscriptFound\<close>: the three
    exception classes imported from \<^verbatim>\<open>youtube_transcript_api._errors\<close> (none is a
    subclass of another, nor of \<^verbatim>\<open>ValueError\<close>);
  \<^item> \<open>ValueError msg\<close>: Python's \<^verbatim>\<open>ValueError\<close>, \<open>msg\<close> being \<^verbatim>\<open>str(e)\<close>;
  \<^item> \<open>OtherException msg\<close>: every other exception (\<^verbatim>\<open>TypeError\<close>, a network
    error, another error class of the transcript library, ...), \<open>msg\<close> being \<^verbatim>\<open>str(e)\<close>.
\<close>

datatype error =
    HTTPException nat string
  | VideoUnavailable
  | TranscriptsDisabled
  | NoTranscriptFound
  | ValueError string
  | OtherException string

section \<open>Python sequence primitives\<close>

text \<open>
  A Python \<^verbatim>\<open>str\<close> is a sequence of code points; it is modelled as a \<open>string\<close> whose
  elements stand for the code points, so \<open>length\<close> is Python's \<^verbatim>\<open>len\<close>.

  \<^verbatim>\<open>xs[lo:hi]\<close>: each bound is normalised against the length \<open>n\<close> as CPython does for a
  slice of step one (a negative bound counts from the end and is clamped at 0, a
  non-negative one is clamped at \<open>n\<close>); the slice is empty when the bounds cross.
\<close>

definition slice_bound :: "nat \<Rightarrow> int \<Rightarrow> nat" where
  "slice_bound n i = (if i < 0 then nat (max 0 (int n + i)) else min n (nat i))"

definition py_slice :: "'a list \<Rightarrow> int \<Rightarrow> int \<Rightarrow> 'a list" where
  "py_slice xs lo hi =
     (let a = slice_bound (length xs) lo; b = slice_bound (length xs) hi
      in take (b - a) (drop a xs))"

text \<open>
  \<^verbatim>\<open>range(start, stop, step)\<close>: counting up for a positive step, down for a negative
  one, and \<^verbatim>\<open>ValueError\<close> for step zero.
\<close>

function range_up :: "int \<Rightarrow> int \<Rightarrow> int \<Rightarrow> int list" where
  "range_up i stop step =
     (if 0 < step \<and> i < stop then i # range_up (i + step) stop step else [])"
  by pat_completeness auto
termination
  by (relation "measure (\<lambda>(i, stop, step). nat (stop - i))") auto

function range_down :: "int \<Rightarrow> int \<Rightarrow> int \<Rightarrow> int list" where
  "range_down i stop step =
     (if step < 0 \<and> stop < i then i # range_down (i + step) stop step else [])"
  by pat_completeness auto
termination
  by (relation "measure (\<lambda>(i, stop, step). nat (i - stop))") auto

declare range_up.simps [simp del] range_down.simps [simp del]

definition py_range :: "int \<Rightarrow> int \<Rightarrow> int \<Rightarrow> error + int list" where
  "py_range start stop step =
     (if step = 0 then Inl (ValueError ''range() arg 3 must not be zero'')
      else if 0 < step then Inr (range_up start stop step)
      else Inr (range_down start stop step))"

text \<open>\<^verbatim>\<open>enumerate(xs)\<close> pairs every element with its position, from 0.\<close>

definition py_enumerate :: "'a list \<Rightarrow> (nat \<times> 'a) list" where
  "py_enumerate xs = zip [0..<length xs] xs"

text \<open>\<^verbatim>\<open>s.lstrip(chars)\<close> removes every leading character that occurs in \<open>chars\<close>.\<close>

definition lstrip :: "string \<Rightarrow> string \<Rightarrow> string" where
  "lstrip s chars = dropWhile (\<lambda>c. c \<in> set chars) s"

text \<open>\<^verbatim>\<open>sep.join(parts)\<close>.\<close>

fun join :: "string \<Rightarrow> string list \<Rightarrow> string" where
  "join sep [] = []"
| "join sep [x] = x"
| "join sep (x # y # ys) = x @ sep @ join sep (y # ys)"

section \<open>Chunker and paginator (\<^verbatim>\<open>src/main.py\<close>)\<close>

text \<open>
  A chunk is the dictionary \<^verbatim>\<open>{"index": idx, "text": ...}\<close>; the field for \<^verbatim>\<open>"text"\<close>
  is written \<open>text'\<close>.
\<close>

record chunk =
  index :: nat
  text' :: string

text \<open>
  \<^verbatim>\<open>
  def chunk_text(text: str, size: int) -> list[dict]:
      if not text or size <= 0:
          return []
      return [
          {"index": idx, "text": text[i : i + size]}
          for idx, i in enumerate(range(0, len(text), size))
      ]
  \<close>
\<close>

definition chunk_text :: "string \<Rightarrow> int \<Rightarrow> error + chunk list" where
  "chunk_text s sz =
     (if s = [] \<or> sz \<le> 0 then Inr []
      else case py_range 0 (int (length s)) sz of
             Inl e \<Rightarrow> Inl e
           | Inr starts \<Rightarrow>
               Inr (map (\<lambda>(idx, i). \<lparr>index = idx, text' = py_slice s i (i + sz)\<rparr>)
                        (py_enumerate starts)))"

text \<open>A page is the dictionary \<^verbatim>\<open>{"chunks": ..., "next_index": ..., "total_chunks": ...}\<close>.\<close>

record page =
  chunks :: "chunk list"
  next_index :: "int option"
  total_chunks :: int

text \<open>
  \<^verbatim>\<open>
  def paginate_chunks(chunks: list[dict], start: int, max_chunks: int) -> dict:
      if not chunks:
          return {"chunks": [], "next_index": None, "total_chunks": 0}
      total = len(chunks)
      start = max(0, start)  # Ensure start is not negative
      end = min(start + max_chunks, total)
      page = chunks[start:end]
      next_index = end if end < total else None
      return {"chunks": page, "next_index": next_index, "total_chunks": total}
  \<close>
\<close>

definition paginate_chunks :: "chunk list \<Rightarrow> int \<Rightarrow> int \<Rightarrow> page" where
  "paginate_chunks cs start max_chunks =
     (if cs = [] then \<lparr>chunks = [], next_index = None, total_chunks = 0\<rparr>
      else
        let total = int (length cs);
            start' = max 0 start;
            end' = min (start' + max_chunks) total;
            page = py_slice cs start' end';
            next = (if end' < total then Some end' else None)
        in \<lparr>chunks = page, next_index = next, total_chunks = total\<rparr>)"

section \<open>The older copies in \<^verbatim>\<open>src/sample/sample_func.py\<close>\<close>

text \<open>
  The sample document holds an earlier copy of the helpers, without the guards of
  \<^verbatim>\<open>src/main.py\<close>: \<^verbatim>\<open>chunk_text\<close> goes straight to the comprehension, and
  \<^verbatim>\<open>paginate_chunks\<close> neither tests for an empty list nor clamps \<^verbatim>\<open>start\<close>.
\<close>

definition sample_chunk_text :: "string \<Rightarrow> int \<Rightarrow> error + chunk list" where
  "sample_chunk_text s sz =
     (case py_range 0 (int (length s)) sz of
        Inl e \<Rightarrow> Inl e
      | Inr starts \<Rightarrow>
          Inr (map (\<lambda>(idx, i). \<lparr>index = idx, text' = py_slice s i (i + sz)\<rparr>)
                   (py_enumerate starts)))"

definition sample_paginate_chunks :: "chunk list \<Rightarrow> int \<Rightarrow> int \<Rightarrow> page" where
  "sample_paginate_chunks cs start max_chunks =
     (let total = int (length cs);
          end' = min (start + max_chunks) total;
          page = py_slice cs start end';
          next = (if end' < total then Some end' else None)
      in \<lparr>chunks = page, next_index = next, total_chunks = total\<rparr>)"

section \<open>Video-id extractor\<close>

text \<open>
  \<^verbatim>\<open>urlparse\<close> and \<^verbatim>\<open>parse_qs\<close> belong to Python's \<^verbatim>\<open>urllib.parse\<close>, not to this
  repository: they are parameters of the model. \<^verbatim>\<open>urlparse\<close> may raise (it raises
  \<^verbatim>\<open>ValueError\<close> on some malformed URLs); its result is read through \<^verbatim>\<open>hostname\<close>
  (which may be \<^verbatim>\<open>None\<close>), \<^verbatim>\<open>path\<close> and \<^verbatim>\<open>query\<close>. \<^verbatim>\<open>parse_qs\<close> returns a dictionary
  from parameter names to lists of values.
\<close>

record parse_result =
  hostname :: "string option"
  path :: string
  query :: string

record urllib =
  urlparse :: "string \<Rightarrow> error + parse_result"
  parse_qs :: "string \<Rightarrow> error + (string \<rightharpoonup> string list)"

text \<open>
  The body of the \<^verbatim>\<open>try\<close> block of \<^verbatim>\<open>extract_video_id\<close> in \<^verbatim>\<open>src/main.py\<close>:
  \<^verbatim>\<open>
      parsed = urlparse(url)
      if parsed.hostname in ('youtu.be',):
          return parsed.path.lstrip('/')
      if parsed.hostname in ('www.youtube.com', 'youtube.com'):
          params = parse_qs(parsed.query)
          return params.get('v', [None])[0]
      return None
  \<close>
  \<^verbatim>\<open>params.get('v', [None])[0]\<close> is \<^verbatim>\<open>None\<close> when \<^verbatim>\<open>v\<close> is absent, the first value of
  \<^verbatim>\<open>v\<close> when present, and raises \<^verbatim>\<open>IndexError\<close> on an empty list of values.
\<close>

definition extract_video_id_body :: "urllib \<Rightarrow> string \<Rightarrow> error + string option" where
  "extract_video_id_body lib u =
     (case urlparse lib u of
        Inl e \<Rightarrow> Inl e
      | Inr parsed \<Rightarrow>
          if hostname parsed = Some ''youtu.be'' then Inr (Some (lstrip (path parsed) ''/''))
          else if hostname parsed = Some ''www.youtube.com'' \<or> hostname parsed = Some ''youtube.com''
          then (case parse_qs lib (query parsed) of
                  Inl e \<Rightarrow> Inl e
                | Inr params \<Rightarrow>
                    (case params ''v'' of
                       None \<Rightarrow> Inr None
                     | Some [] \<Rightarrow> Inl (OtherException ''list index out of range'')
                     | Some (v # _) \<Rightarrow> Inr (Some v)))
          else Inr None)"

text \<open>
  \<^verbatim>\<open>
  def extract_video_id(url: str) -> str:
      if not url:
          return None
      try:
          ...
      except Exception:
          return None
  \<close>
  The argument may be \<^verbatim>\<open>None\<close> (a missing URL), hence \<open>string option\<close>. The result
  keeps the error channel, so that "does not raise" is a statement about the function.
\<close>

definition extract_video_id :: "urllib \<Rightarrow> string option \<Rightarrow> error + string option" where
  "extract_video_id lib url =
     (case url of
        None \<Rightarrow> Inr None
      | Some u \<Rightarrow>
          if u = [] then Inr None
          else (case extract_video_id_body lib u of
                  Inl e \<Rightarrow> Inr None
                | Inr r \<Rightarrow> Inr r))"

text \<open>The copy in \<^verbatim>\<open>src/sample/sample_func.py\<close> has neither the test nor the handler.\<close>

definition sample_extract_video_id :: "urllib \<Rightarrow> string \<Rightarrow> error + string option" where
  "sample_extract_video_id lib u = extract_video_id_body lib u"

section \<open>Transcript Source\<close>

text \<open>
  The transcript library is an external collaborator. Its objects are modelled by what
  the service reads from them.

  A variant is a \<^verbatim>\<open>Transcript\<close>: \<^verbatim>\<open>language\<close>, \<^verbatim>\<open>language_code\<close>, \<^verbatim>\<open>is_generated\<close>,
  \<^verbatim>\<open>is_translatable\<close>, and the language codes of \<^verbatim>\<open>translation_languages\<close>.
\<close>

record variant =
  language :: string
  language_code :: string
  is_generated :: bool
  is_translatable :: bool
  translation_languages :: "string list"

text \<open>A \<^verbatim>\<open>FetchedTranscript\<close>: the snippet texts in order, and three attributes.\<close>

record fetched_transcript =
  snippets :: "string list"
  fetched_language :: string
  fetched_language_code :: string
  fetched_is_generated :: bool

text \<open>
  A \<^verbatim>\<open>TranscriptList\<close> is used through iteration (\<^verbatim>\<open>for t in transcript_list\<close>) and
  three lookup methods, each of which may raise. They are parameters: the fields of a
  record.
\<close>

record transcript_list =
  iter :: "error + variant list"
  find_transcript :: "string list \<Rightarrow> error + variant"
  find_manually_created_transcript :: "string list \<Rightarrow> error + variant"
  find_generated_transcript :: "string list \<Rightarrow> error + variant"

text \<open>
  The calls that reach the Transcript Source: \<^verbatim>\<open>ytt_api.list(video_id)\<close>,
  \<^verbatim>\<open>t.translate(code)\<close> and \<^verbatim>\<open>t.fetch()\<close>. Each takes the state \<open>'w\<close> of the outside
  world and returns the state after the call, so that the number and order of calls
  made by a request is part of its result.
\<close>

record 'w transcript_api =
  list_transcripts :: "string \<Rightarrow> 'w \<Rightarrow> (error + transcript_list) \<times> 'w"
  translate :: "variant \<Rightarrow> string \<Rightarrow> 'w \<Rightarrow> (error + variant) \<times> 'w"
  fetch :: "variant \<Rightarrow> 'w \<Rightarrow> (error + fetched_transcript) \<times> 'w"

text \<open>
  Modelled from the spec: the lookup methods of the transcript library's
  \<^verbatim>\<open>TranscriptList\<close> (third-party code, absent from \<^verbatim>\<open>src/\<close>), over an enumeration
  \<open>vs\<close> of variants. A lookup takes the requested codes in the caller's order of
  preference and returns the first variant of the wanted kind whose language code is
  the requested one ("first match wins"); it raises \<^verbatim>\<open>NoTranscriptFound\<close> when no code
  matches.
\<close>

fun find_by_codes :: "(variant \<Rightarrow> bool) \<Rightarrow> variant list \<Rightarrow> string list \<Rightarrow> error + variant" where
  "find_by_codes P vs [] = Inl NoTranscriptFound"
| "find_by_codes P vs (c # cs) =
     (case find (\<lambda>v. P v \<and> language_code v = c) vs of
        Some v \<Rightarrow> Inr v
      | None \<Rightarrow> find_by_codes P vs cs)"

definition transcript_list_of :: "variant list \<Rightarrow> transcript_list" where
  "transcript_list_of vs =
     \<lparr>iter = Inr vs,
      find_transcript = find_by_codes (\<lambda>v. True) vs,
      find_manually_created_transcript = find_by_codes (\<lambda>v. \<not> is_generated v) vs,
      find_generated_transcript = find_by_codes (\<lambda>v. is_generated v) vs\<rparr>"

section \<open>Language selector (\<^verbatim>\<open>src/main.py\<close>, lines 149 to 212)\<close>

text \<open>
  The translation fallback, lines 161 to 172, the body of the inner \<^verbatim>\<open>try\<close>. \<open>first\<close>
  is \<^verbatim>\<open>requested_languages[0]\<close>.
  \<^verbatim>\<open>
      available_transcript = None
      for t in transcript_list:
          if t.is_translatable and requested_languages[0] in
                  [lang.language_code for lang in t.translation_languages]:
              available_transcript = t
              break
      if available_transcript:
          transcript = available_transcript.translate(requested_languages[0])
      else:
          raise NoTranscriptFound(video_id, requested_languages, [])
  \<close>
\<close>

definition translation_attempt ::
  "'w transcript_api \<Rightarrow> transcript_list \<Rightarrow> string \<Rightarrow> 'w \<Rightarrow> (error + variant) \<times> 'w" where
  "translation_attempt api tlist first w =
     (case iter tlist of
        Inl e \<Rightarrow> (Inl e, w)
      | Inr vs \<Rightarrow>
          (case find (\<lambda>t. is_translatable t \<and> first \<in> set (translation_languages t)) vs of
             Some t \<Rightarrow> translate api t first w
           | None \<Rightarrow> (Inl NoTranscriptFound, w)))"

text \<open>
  Lines 161 to 174: the bare \<^verbatim>\<open>except:\<close> around that body re-raises everything as
  \<^verbatim>\<open>NoTranscriptFound\<close>.
\<close>

definition translation_fallback ::
  "'w transcript_api \<Rightarrow> transcript_list \<Rightarrow> string \<Rightarrow> 'w \<Rightarrow> (error + variant) \<times> 'w" where
  "translation_fallback api tlist first w =
     (case translation_attempt api tlist first w of
        (Inl e, w') \<Rightarrow> (Inl NoTranscriptFound, w')
      | (Inr t, w') \<Rightarrow> (Inr t, w'))"

text \<open>
  Lines 156 to 174, for the requested languages \<open>first # rest\<close> (the list is not empty
  on this path):
  \<^verbatim>\<open>
      try:
          transcript = transcript_list.find_transcript(requested_languages)
      except NoTranscriptFound:
          ...translation fallback...
  \<close>
  Any other exception of \<^verbatim>\<open>find_transcript\<close> propagates.
\<close>

definition select_requested ::
  "'w transcript_api \<Rightarrow> transcript_list \<Rightarrow> string \<Rightarrow> string list \<Rightarrow> 'w \<Rightarrow> (error + variant) \<times> 'w" where
  "select_requested api tlist first rest w =
     (case find_transcript tlist (first # rest) of
        Inr t \<Rightarrow> (Inr t, w)
      | Inl e \<Rightarrow>
          if e = NoTranscriptFound then translation_fallback api tlist first w
          else (Inl e, w))"

text \<open>
  Lines 178 to 191: manually created transcripts. The result is the value of the
  variable \<^verbatim>\<open>transcript\<close> afterwards (\<open>None\<close> when still unset). The inner loop stands
  in a \<^verbatim>\<open>try\<close> whose bare \<^verbatim>\<open>except:\<close> passes.
  \<^verbatim>\<open>
      transcript = None
      try:
          transcript = transcript_list.find_manually_created_transcript(['en'])
      except NoTranscriptFound:
          try:
              for t in transcript_list:
                  if not t.is_generated:
                      transcript = t
                      break
          except:
              pass
  \<close>
\<close>

definition manual_stage :: "transcript_list \<Rightarrow> error + variant option" where
  "manual_stage tlist =
     (case find_manually_created_transcript tlist [''en''] of
        Inr t \<Rightarrow> Inr (Some t)
      | Inl e \<Rightarrow>
          if e = NoTranscriptFound
          then (case iter tlist of
                  Inl e' \<Rightarrow> Inr None
                | Inr vs \<Rightarrow> Inr (find (\<lambda>t. \<not> is_generated t) vs))
          else Inl e)"

text \<open>
  Lines 195 to 202: auto-generated transcripts; this loop has no handler of its own.
  \<^verbatim>\<open>
      try:
          transcript = transcript_list.find_generated_transcript(['en'])
      except NoTranscriptFound:
          for t in transcript_list:
              if t.is_generated:
                  transcript = t
                  break
  \<close>
\<close>

definition generated_stage :: "transcript_list \<Rightarrow> error + variant option" where
  "generated_stage tlist =
     (case find_generated_transcript tlist [''en''] of
        Inr t \<Rightarrow> Inr (Some t)
      | Inl e \<Rightarrow>
          if e = NoTranscriptFound
          then (case iter tlist of
                  Inl e' \<Rightarrow> Inl e'
                | Inr vs \<Rightarrow> Inr (find (\<lambda>t. is_generated t) vs))
          else Inl e)"

text \<open>
  Lines 205 to 208: any transcript at all.
  \<^verbatim>\<open>
      if not transcript:
          for t in transcript_list:
              transcript = t
              break
  \<close>
\<close>

definition any_stage :: "transcript_list \<Rightarrow> error + variant option" where
  "any_stage tlist =
     (case iter tlist of
        Inl e \<Rightarrow> Inl e
      | Inr [] \<Rightarrow> Inr None
      | Inr (t # _) \<Rightarrow> Inr (Some t))"

text \<open>
  Lines 176 to 212, the path without a requested language. A \<^verbatim>\<open>Transcript\<close> object is
  always true, so \<^verbatim>\<open>if not transcript\<close> tests for \<^verbatim>\<open>None\<close>.
\<close>

definition select_default :: "transcript_list \<Rightarrow> error + variant" where
  "select_default tlist =
     (case manual_stage tlist of
        Inl e \<Rightarrow> Inl e
      | Inr (Some t) \<Rightarrow> Inr t
      | Inr None \<Rightarrow>
          (case generated_stage tlist of
             Inl e \<Rightarrow> Inl e
           | Inr (Some t) \<Rightarrow> Inr t
           | Inr None \<Rightarrow>
               (case any_stage tlist of
                  Inl e \<Rightarrow> Inl e
                | Inr (Some t) \<Rightarrow> Inr t
                | Inr None \<Rightarrow> Inl NoTranscriptFound)))"

text \<open>
  The request's \<^verbatim>\<open>language\<close> field is \<^verbatim>\<open>Optional[Union[str, List[str]]]\<close>. Line 149
  tests its truth value: \<^verbatim>\<open>None\<close>, the empty string and the empty list take the path
  without a requested language; a string becomes a list of one code. On the other path
  \<open>requested_languages\<close> gives the list \<^verbatim>\<open>requested_languages\<close> of lines 151 to 154, which
  is then not empty, as its first code and the codes after it.
\<close>

datatype language_spec = LangStr string | LangList "string list"

definition requested_languages :: "language_spec option \<Rightarrow> (string \<times> string list) option" where
  "requested_languages languages_param =
     (case languages_param of
        None \<Rightarrow> None
      | Some (LangStr s) \<Rightarrow> if s = [] then None else Some (s, [])
      | Some (LangList []) \<Rightarrow> None
      | Some (LangList (l # ls)) \<Rightarrow> Some (l, ls))"

definition select_transcript ::
  "'w transcript_api \<Rightarrow> transcript_list \<Rightarrow> language_spec option \<Rightarrow> 'w \<Rightarrow> (error + variant) \<times> 'w" where
  "select_transcript api tlist languages_param w =
     (case requested_languages languages_param of
        Some (first, rest) \<Rightarrow> select_requested api tlist first rest w
      | None \<Rightarrow> (select_default tlist, w))"

text \<open>
  The spec's words for the path without a requested language (section 4.2, case B): an
  ordered list of rules, evaluated in order, each taking the first variant of the
  enumeration that satisfies it.
\<close>

fun first_success :: "('a \<Rightarrow> bool) list \<Rightarrow> 'a list \<Rightarrow> 'a option" where
  "first_success [] vs = None"
| "first_success (P # Ps) vs =
     (case find P vs of Some v \<Rightarrow> Some v | None \<Rightarrow> first_success Ps vs)"

definition priority_rules :: "(variant \<Rightarrow> bool) list" where
  "priority_rules =
     [\<lambda>v. \<not> is_generated v \<and> language_code v = ''en'',
      \<lambda>v. \<not> is_generated v,
      \<lambda>v. is_generated v \<and> language_code v = ''en'',
      \<lambda>v. is_generated v,
      \<lambda>v. True]"

definition spec_select_default :: "variant list \<Rightarrow> error + variant" where
  "spec_select_default vs =
     (case first_success priority_rules vs of
        Some v \<Rightarrow> Inr v
      | None \<Rightarrow> Inl NoTranscriptFound)"

section \<open>Response assembly and request boundary (\<^verbatim>\<open>src/main.py\<close>)\<close>

text \<open>
  \<^verbatim>\<open>CaptionRequest\<close>: \<^verbatim>\<open>url\<close> is a string; \<^verbatim>\<open>chunk_size\<close>, \<^verbatim>\<open>max_chunks\<close> and
  \<^verbatim>\<open>start_index\<close> are \<^verbatim>\<open>Optional[int]\<close>, so each may be \<^verbatim>\<open>None\<close>; the field
  \<^verbatim>\<open>language\<close> is the \<^verbatim>\<open>languages_param\<close> of the handler.
\<close>

record caption_request =
  url :: string
  chunk_size :: "int option"
  max_chunks :: "int option"
  start_index :: "int option"
  languages_param :: "language_spec option"

text \<open>
  The calls \<^verbatim>\<open>chunk_text(full_text, chunk_size)\<close> and
  \<^verbatim>\<open>paginate_chunks(all_chunks, start_index, max_chunks)\<close> with arguments that may be
  \<^verbatim>\<open>None\<close>: the first comparison or addition that meets \<^verbatim>\<open>None\<close> raises
  \<^verbatim>\<open>TypeError\<close>. \<^verbatim>\<open>not text\<close> and \<^verbatim>\<open>not chunks\<close> are tested first and return early.
  \<open>quoted s\<close> is \<open>s\<close> between two apostrophes, as in the messages of \<^verbatim>\<open>TypeError\<close>.
\<close>

definition quoted :: "string \<Rightarrow> string" where
  "quoted s = CHR 0x27 # s @ [CHR 0x27]"

definition not_supported :: "string \<Rightarrow> string" where
  "not_supported operator =
     quoted operator @ '' not supported between instances of '' @ quoted ''NoneType''
       @ '' and '' @ quoted ''int''"

definition call_chunk_text :: "string \<Rightarrow> int option \<Rightarrow> error + chunk list" where
  "call_chunk_text s sz =
     (case sz of
        Some n \<Rightarrow> chunk_text s n
      | None \<Rightarrow>
          if s = [] then Inr []
          else Inl (OtherException
                 (not_supported ''<='')))"

definition call_paginate_chunks :: "chunk list \<Rightarrow> int option \<Rightarrow> int option \<Rightarrow> error + page" where
  "call_paginate_chunks cs start max_chunks' =
     (if cs = [] then Inr \<lparr>chunks = [], next_index = None, total_chunks = 0\<rparr>
      else case start of
             None \<Rightarrow> Inl (OtherException
                        (not_supported ''>''))
           | Some st \<Rightarrow>
               (case max_chunks' of
                  None \<Rightarrow> Inl (OtherException
                             (''unsupported operand type(s) for +: '' @ quoted ''int'' @ '' and '' @ quoted ''NoneType''))
                | Some m \<Rightarrow> Inr (paginate_chunks cs st m)))"

text \<open>One entry of \<^verbatim>\<open>available_languages\<close>; \<^verbatim>\<open>translation_languages\<close> is present only
  for a translatable variant.\<close>

record lang_info =
  info_language :: string
  info_language_code :: string
  info_is_generated :: bool
  info_is_translatable :: bool
  info_translation_languages :: "string list option"

definition lang_info_of :: "variant \<Rightarrow> lang_info" where
  "lang_info_of t =
     \<lparr>info_language = language t,
      info_language_code = language_code t,
      info_is_generated = is_generated t,
      info_is_translatable = is_translatable t,
      info_translation_languages =
        (if is_translatable t then Some (translation_languages t) else None)\<rparr>"

text \<open>
  The payload is a dictionary that ends with \<^verbatim>\<open>**page_data\<close>: it has the three keys of
  a page and six of its own (\<open>selected_is_generated\<close> is the key \<^verbatim>\<open>is_generated\<close>).
\<close>

record payload = page +
  video_id :: string
  total_characters :: nat
  selected_language :: string
  selected_language_code :: string
  selected_is_generated :: bool
  available_languages :: "lang_info list"

text \<open>
  Lines 218 to 246: from the fetched transcript to the payload.
  \<^verbatim>\<open>
      full_text = " ".join(snippet.text for snippet in fetched_transcript)
      all_chunks = chunk_text(full_text, chunk_size)
      page_data = paginate_chunks(all_chunks, start_index, max_chunks)
      available_languages = []
      for t in transcript_list: ...
      payload = {"video_id": video_id, "total_characters": len(full_text), ..., **page_data}
  \<close>
\<close>

definition build_payload ::
  "string \<Rightarrow> transcript_list \<Rightarrow> fetched_transcript \<Rightarrow> caption_request \<Rightarrow> error + payload" where
  "build_payload vid tlist ft req =
     (let full_text = join '' '' (snippets ft) in
      case call_chunk_text full_text (chunk_size req) of
        Inl e \<Rightarrow> Inl e
      | Inr all_chunks \<Rightarrow>
          (case call_paginate_chunks all_chunks (start_index req) (max_chunks req) of
             Inl e \<Rightarrow> Inl e
           | Inr page_data \<Rightarrow>
               (case iter tlist of
                  Inl e \<Rightarrow> Inl e
                | Inr vs \<Rightarrow>
                    Inr \<lparr>chunks = chunks page_data,
                         next_index = next_index page_data,
                         total_chunks = total_chunks page_data,
                         video_id = vid,
                         total_characters = length full_text,
                         selected_language = fetched_language ft,
                         selected_language_code = fetched_language_code ft,
                         selected_is_generated = fetched_is_generated ft,
                         available_languages = map lang_info_of vs\<rparr>)))"

text \<open>
  Lines 116 to 248: the body of the outer \<^verbatim>\<open>try\<close> of \<^verbatim>\<open>get_youtube_caption\<close>. The
  proxy configuration only decides how the Transcript Source is reached; the source is
  the parameter \<open>api\<close>. \<^verbatim>\<open>if not video_id\<close> rejects \<^verbatim>\<open>None\<close> and the empty string.
\<close>

definition caption_body ::
  "urllib \<Rightarrow> 'w transcript_api \<Rightarrow> caption_request \<Rightarrow> 'w \<Rightarrow> (error + payload) \<times> 'w" where
  "caption_body lib api req w =
     (case extract_video_id lib (Some (url req)) of
        Inl e \<Rightarrow> (Inl e, w)
      | Inr None \<Rightarrow> (Inl (HTTPException 400 ''Invalid YouTube URL.''), w)
      | Inr (Some vid) \<Rightarrow>
          if vid = [] then (Inl (HTTPException 400 ''Invalid YouTube URL.''), w)
          else
            (case list_transcripts api vid w of
               (Inl e, w1) \<Rightarrow> (Inl e, w1)
             | (Inr tlist, w1) \<Rightarrow>
                 (case select_transcript api tlist (languages_param req) w1 of
                    (Inl e, w2) \<Rightarrow> (Inl e, w2)
                  | (Inr t, w2) \<Rightarrow>
                      (case fetch api t w2 of
                         (Inl e, w3) \<Rightarrow> (Inl e, w3)
                       | (Inr ft, w3) \<Rightarrow> (build_payload vid tlist ft req, w3)))))"

text \<open>
  Lines 250 to 270: the handlers of the outer \<^verbatim>\<open>try\<close>, in their order. Each raises an
  \<^verbatim>\<open>HTTPException\<close>, which FastAPI turns into the response
  \<^verbatim>\<open>{"detail": ...}\<close> with that status code.
\<close>

record http_exception =
  status_code :: nat
  detail :: string

fun handle_exception :: "error \<Rightarrow> http_exception" where
  "handle_exception (HTTPException s d) = \<lparr>status_code = s, detail = d\<rparr>"
| "handle_exception VideoUnavailable =
     \<lparr>status_code = 404, detail = ''Video is unavailable or private.''\<rparr>"
| "handle_exception TranscriptsDisabled =
     \<lparr>status_code = 403, detail = ''Transcripts are disabled for this video.''\<rparr>"
| "handle_exception NoTranscriptFound =
     \<lparr>status_code = 404,
      detail = ''No transcript available for this video in the requested language(s).''\<rparr>"
| "handle_exception (ValueError m) =
     \<lparr>status_code = 400, detail = ''Invalid parameter value: '' @ m\<rparr>"
| "handle_exception (OtherException m) =
     \<lparr>status_code = 500, detail = ''Internal server error: '' @ m\<rparr>"

definition get_youtube_caption ::
  "urllib \<Rightarrow> 'w transcript_api \<Rightarrow> caption_request \<Rightarrow> 'w \<Rightarrow> (http_exception + payload) \<times> 'w" where
  "get_youtube_caption lib api req w =
     (case caption_body lib api req w of
        (Inl e, w') \<Rightarrow> (Inl (handle_exception e), w')
      | (Inr p, w') \<Rightarrow> (Inr p, w'))"


text \<open>
  \<^verbatim>\<open>src/sample/sample_func.py\<close>, lines 98 to 107, in \<^verbatim>\<open>main\<close>: the same join, chunking
  and pagination, with the sample's helpers; its three parameters went through
  \<^verbatim>\<open>int(...)\<close> and are integers.
\<close>

record sample_payload = page +
  sample_video_id :: string
  sample_total_characters :: nat

definition sample_build_payload ::
  "string \<Rightarrow> string list \<Rightarrow> int \<Rightarrow> int \<Rightarrow> int \<Rightarrow> error + sample_payload" where
  "sample_build_payload vid entries chunk_sz max_chunks' start =
     (let full_text = join '' '' entries in
      case sample_chunk_text full_text chunk_sz of
        Inl e \<Rightarrow> Inl e
      | Inr all_chunks \<Rightarrow>
          (let page_data = sample_paginate_chunks all_chunks start max_chunks' in
           Inr \<lparr>chunks = chunks page_data,
                next_index = next_index page_data,
                total_chunks = total_chunks page_data,
                sample_video_id = vid,
                sample_total_characters = length full_text\<rparr>))"

section \<open>Collaborators for the scenarios\<close>

text \<open>
  Concrete collaborators, on which the theorems below are instantiated.

  \<open>url_table\<close> answers as \<^verbatim>\<open>urlparse\<close> and \<^verbatim>\<open>parse_qs\<close> do on the URLs of the tests
  (\<^verbatim>\<open>src/test_function_app.py\<close>) and on \<^verbatim>\<open>http://[\<close>, where \<^verbatim>\<open>urlparse\<close> raises
  \<^verbatim>\<open>ValueError\<close>; on every other string it answers as \<^verbatim>\<open>urlparse\<close> does for a string
  without scheme, host, query or fragment.
\<close>

definition url_table :: urllib where
  "url_table =
     \<lparr>urlparse = (\<lambda>u.
        if u = ''https://youtu.be/dQw4w9WgXcQ''
        then Inr \<lparr>hostname = Some ''youtu.be'', path = ''/dQw4w9WgXcQ'', query = []\<rparr>
        else if u = ''https://www.youtube.com/watch?v=dQw4w9WgXcQ''
        then Inr \<lparr>hostname = Some ''www.youtube.com'', path = ''/watch'', query = ''v=dQw4w9WgXcQ''\<rparr>
        else if u = ''https://www.youtube.com/watch''
        then Inr \<lparr>hostname = Some ''www.youtube.com'', path = ''/watch'', query = []\<rparr>
        else if u = ''https://example.com/watch?v=dQw4w9WgXcQ''
        then Inr \<lparr>hostname = Some ''example.com'', path = ''/watch'', query = ''v=dQw4w9WgXcQ''\<rparr>
        else if u = ''http://['' then Inl (ValueError ''Invalid IPv6 URL'')
        else Inr \<lparr>hostname = None, path = u, query = []\<rparr>),
      parse_qs = (\<lambda>q.
        if q = ''v=dQw4w9WgXcQ'' then Inr [''v'' \<mapsto> [''dQw4w9WgXcQ'']]
        else Inr Map.empty)\<rparr>"

text \<open>
  The variants of the tests: a manually created English one, a Spanish auto-generated
  one, and a Vietnamese auto-generated one that can be translated into English.
\<close>

definition english :: variant where
  "english =
     \<lparr>language = ''English'', language_code = ''en'', is_generated = False,
      is_translatable = False, translation_languages = []\<rparr>"

definition spanish :: variant where
  "spanish =
     \<lparr>language = ''Spanish'', language_code = ''es'', is_generated = True,
      is_translatable = False, translation_languages = []\<rparr>"

definition vietnamese :: variant where
  "vietnamese =
     \<lparr>language = ''Vietnamese'', language_code = ''vi'', is_generated = True,
      is_translatable = True, translation_languages = [''en'']\<rparr>"

text \<open>
  A Transcript Source whose state is the list of the calls made so far. \<^verbatim>\<open>list\<close>
  answers with \<open>listed\<close> (a transcript list, or an exception); \<^verbatim>\<open>translate\<close> answers
  with \<open>translated\<close> (a derivative of the variant, or an exception); \<^verbatim>\<open>fetch\<close> answers
  with \<open>fetched\<close>.
\<close>

datatype call = ListCall string | TranslateCall string string | FetchCall string

definition scenario_api ::
  "error + transcript_list \<Rightarrow> (variant \<Rightarrow> string \<Rightarrow> error + variant)
     \<Rightarrow> (variant \<Rightarrow> error + fetched_transcript) \<Rightarrow> call list transcript_api" where
  "scenario_api listed translated fetched =
     \<lparr>list_transcripts = (\<lambda>vid w. (listed, w @ [ListCall vid])),
      translate = (\<lambda>t code w. (translated t code, w @ [TranslateCall (language_code t) code])),
      fetch = (\<lambda>t w. (fetched t, w @ [FetchCall (language_code t)]))\<rparr>"

text \<open>A translation as the library builds it, and one that a blocked request would give.\<close>

definition derivative :: "variant \<Rightarrow> string \<Rightarrow> error + variant" where
  "derivative t code =
     Inr \<lparr>language = language t, language_code = code, is_generated = True,
          is_translatable = False, translation_languages = []\<rparr>"

definition blocked :: "variant \<Rightarrow> string \<Rightarrow> error + variant" where
  "blocked t code = Inl (OtherException ''request blocked'')"

text \<open>A transcript list whose iteration raises, and whose lookups find nothing.\<close>

definition unreadable_list :: transcript_list where
  "unreadable_list =
     \<lparr>iter = Inl (OtherException ''connection reset''),
      find_transcript = (\<lambda>codes. Inl NoTranscriptFound),
      find_manually_created_transcript = (\<lambda>codes. Inl NoTranscriptFound),
      find_generated_transcript = (\<lambda>codes. Inl NoTranscriptFound)\<rparr>"


definition fetched_with :: "string list \<Rightarrow> variant \<Rightarrow> error + fetched_transcript" where
  "fetched_with texts t =
     Inr \<lparr>snippets = texts, fetched_language = language t,
          fetched_language_code = language_code t, fetched_is_generated = is_generated t\<rparr>"

text \<open>A request for two chunks from the first chunk on.\<close>

definition caption_request_of :: "string \<Rightarrow> int option \<Rightarrow> language_spec option \<Rightarrow> caption_request" where
  "caption_request_of u sz lang =
     \<lparr>url = u, chunk_size = sz, max_chunks = Some 2, start_index = Some 0, languages_param = lang\<rparr>"

section \<open>Chunker\<close>

text \<open>A step-one window that starts inside or after the sequence.\<close>

lemma py_slice_window:
  assumes "0 \<le> i" "0 < sz"
  shows "py_slice xs i (i + sz) = take (nat sz) (drop (nat i) xs)"
proof (cases "nat i \<le> length xs")
  case True
  with assms show ?thesis
    by (auto simp: py_slice_def slice_bound_def Let_def min_def nat_add_distrib)
next
  case False
  with assms show ?thesis
    by (simp add: py_slice_def slice_bound_def Let_def min_def)
qed

lemma range_up_step:
  "0 < step \<Longrightarrow> i < stop \<Longrightarrow> range_up i stop step = i # range_up (i + step) stop step"
  by (subst range_up.simps) simp

lemma range_up_done:
  "\<not> (0 < step \<and> i < stop) \<Longrightarrow> range_up i stop step = []"
  by (subst range_up.simps) simp

lemma range_up_concat:
  "0 < sz \<Longrightarrow> 0 \<le> i \<Longrightarrow>
   concat (map (\<lambda>j. py_slice xs j (j + sz)) (range_up i (int (length xs)) sz)) = drop (nat i) xs"
proof (induction i "int (length xs)" sz rule: range_up.induct)
  case (1 i step)
  show ?case
  proof (cases "i < int (length xs)")
    case True
    have d: "drop (nat (i + step)) xs = drop (nat step) (drop (nat i) xs)"
      using 1(2,3) by (simp add: nat_add_distrib add.commute)
    have "concat (map (\<lambda>j. py_slice xs j (j + step)) (range_up i (int (length xs)) step))
          = take (nat step) (drop (nat i) xs) @ drop (nat (i + step)) xs"
      using True 1 by (simp add: range_up_step py_slice_window)
    also have "\<dots> = drop (nat i) xs"
      unfolding d by (rule append_take_drop_id)
    finally show ?thesis .
  next
    case False
    with 1(3) show ?thesis
      by (simp add: range_up_done)
  qed
qed

lemma range_up_length:
  "0 < step \<Longrightarrow>
   int (length (range_up i stop step)) = (if i < stop then (stop - i + step - 1) div step else 0)"
proof (induction i stop step rule: range_up.induct)
  case (1 i stop step)
  show ?case
  proof (cases "i < stop")
    case True
    note lt = this
    have unfold: "int (length (range_up i stop step)) = 1 + int (length (range_up (i + step) stop step))"
      using lt 1(2) by (simp add: range_up_step)
    show ?thesis
    proof (cases "i + step < stop")
      case True
      have "stop - i + step - 1 = (stop - (i + step) + step - 1) + step"
        by simp
      then have "(stop - i + step - 1) div step = (stop - (i + step) + step - 1) div step + 1"
        using 1(2) by (metis div_add_self2 less_irrefl)
      with lt True 1 unfold show ?thesis
        by simp
    next
      case False
      have "0 \<le> stop - i - 1" "stop - i - 1 < step"
        using lt False by simp_all
      then have "(stop - i - 1 + step) div step = 1"
        using 1(2) by (metis add.commute div_add_self1 div_pos_pos_trivial less_irrefl add_0)
      then have "(stop - i + step - 1) div step = 1"
        by (simp add: algebra_simps)
      with lt False 1 unfold show ?thesis
        by simp
    qed
  next
    case False
    then show ?thesis by (simp add: range_up_done)
  qed
qed

lemma ceiling_div_int:
  assumes "0 < (d::int)"
  shows "\<lceil>real_of_int n / real_of_int d\<rceil> = (n + d - 1) div d"
proof -
  define q r where "q = n div d" and "r = n mod d"
  have n: "n = q * d + r" and r: "0 \<le> r" "r < d"
    using assms by (simp_all add: q_def r_def)
  have up: "(n + d - 1) div d = (if r = 0 then q else q + 1)"
  proof (cases "r = 0")
    case True
    have "(q * d + (d - 1)) div d = q"
      using assms by (simp add: div_pos_pos_trivial)
    with True n show ?thesis by (simp add: algebra_simps)
  next
    case False
    have e: "n + d - 1 = (q + 1) * d + (r - 1)"
      using n by (simp add: algebra_simps)
    have "((q + 1) * d + (r - 1)) div d = q + 1"
      using assms r False by (simp add: div_pos_pos_trivial del: distrib_right_numeral)
    then have "(n + d - 1) div d = q + 1"
      unfolding e .
    then show ?thesis using False by simp
  qed
  have "\<lceil>real_of_int n / real_of_int d\<rceil> = - ((- n) div d)"
    by (simp add: ceiling_divide_eq_div)
  also have "\<dots> = (if r = 0 then q else q + 1)"
    using assms by (simp add: zdiv_zminus1_eq_if q_def r_def)
  finally show ?thesis using up by simp
qed

lemma enumerate_texts:
  "map text' (map (\<lambda>(idx, i). \<lparr>index = idx, text' = f i\<rparr>) (py_enumerate xs)) = map f xs"
proof -
  have snd_zip: "map snd (zip [0..<length xs] xs) = xs"
    by (rule map_snd_zip) simp
  have "map (\<lambda>x. f (snd x)) (zip [0..<length xs] xs) = map f (map snd (zip [0..<length xs] xs))"
    by (simp only: map_map o_def)
  also have "\<dots> = map f xs"
    by (simp only: snd_zip)
  finally show ?thesis
    by (simp add: py_enumerate_def case_prod_unfold o_def)
qed

lemma enumerate_indices:
  "map index (map (\<lambda>(idx, i). \<lparr>index = idx, text' = f i\<rparr>) (py_enumerate xs)) = [0..<length xs]"
  by (simp add: py_enumerate_def case_prod_unfold o_def)

lemma chunk_text_positive:
  assumes "s \<noteq> []" "0 < sz"
  shows "chunk_text s sz =
     Inr (map (\<lambda>(idx, i). \<lparr>index = idx, text' = py_slice s i (i + sz)\<rparr>)
              (py_enumerate (range_up 0 (int (length s)) sz)))"
  using assms by (simp add: chunk_text_def py_range_def)

text \<open>
  C1. For a non-empty text and a positive chunk size, \<open>chunk_text\<close> returns (it does not
  raise) chunks whose texts, concatenated in order, are the text itself; their number is
  the ceiling of \<open>len(text) / size\<close>; and their indices are \<open>0, 1, 2, ...\<close> in order.
\<close>

theorem chunk_text_partition:
  assumes "s \<noteq> []" and "0 < sz"
  shows "\<exists>cs. chunk_text s sz = Inr cs
           \<and> concat (map text' cs) = s
           \<and> int (length cs) = \<lceil>real (length s) / real_of_int sz\<rceil>
           \<and> map index cs = [0..<length cs]"
proof -
  let ?starts = "range_up 0 (int (length s)) sz"
  let ?cs = "map (\<lambda>(idx, i). \<lparr>index = idx, text' = py_slice s i (i + sz)\<rparr>) (py_enumerate ?starts)"
  have run: "chunk_text s sz = Inr ?cs"
    using assms by (rule chunk_text_positive)
  have len: "length ?cs = length ?starts"
    by (simp add: py_enumerate_def)
  have "concat (map text' ?cs) = concat (map (\<lambda>i. py_slice s i (i + sz)) ?starts)"
    by (simp only: enumerate_texts)
  also have "\<dots> = drop (nat 0) s"
    using assms(2) by (intro range_up_concat) simp_all
  finally have cat: "concat (map text' ?cs) = s"
    by simp
  have "int (length ?starts) = (int (length s) - 0 + sz - 1) div sz"
    using assms by (simp add: range_up_length)
  also have "\<dots> = \<lceil>real_of_int (int (length s)) / real_of_int sz\<rceil>"
    using assms(2) by (simp only: ceiling_div_int diff_zero)
  finally have cnt: "int (length ?cs) = \<lceil>real (length s) / real_of_int sz\<rceil>"
    using len by simp
  have idx: "map index ?cs = [0..<length ?cs]"
    unfolding len by (rule enumerate_indices)
  from run cat cnt idx show ?thesis
    by blast
qed


text \<open>The first scenario of the spec: 26 characters in chunks of 10.\<close>

theorem chunk_text_partition_witness:
  "''Hello world this is a test'' \<noteq> [] \<and> (0::int) < 10
   \<and> (\<exists>cs. chunk_text ''Hello world this is a test'' 10 = Inr cs
           \<and> concat (map text' cs) = ''Hello world this is a test''
           \<and> int (length cs) = \<lceil>real (length ''Hello world this is a test'') / real_of_int 10\<rceil>
           \<and> map index cs = [0..<length cs])"
  using chunk_text_partition [of "''Hello world this is a test''" 10] by simp

lemma chunk_text_scenario:
  "chunk_text ''Hello world this is a test'' 10 =
     Inr [\<lparr>index = 0, text' = ''Hello worl''\<rparr>,
          \<lparr>index = 1, text' = ''d this is ''\<rparr>,
          \<lparr>index = 2, text' = ''a test''\<rparr>]"
  by (simp add: chunk_text_def py_range_def range_up.simps py_enumerate_def py_slice_def slice_bound_def upt_rec)

text \<open>
  C6. When the text is empty or the size is zero or negative, \<open>chunk_text\<close> returns the
  empty sequence, and not an error.
\<close>

theorem chunk_text_degenerate:
  assumes "s = [] \<or> sz \<le> 0"
  shows "chunk_text s sz = Inr []"
  using assms by (auto simp: chunk_text_def)

theorem chunk_text_degenerate_witness:
  "(''Hello'' = [] \<or> (0::int) \<le> 0) \<and> chunk_text ''Hello'' 0 = Inr []
   \<and> ([] = ([]::string) \<or> (10::int) \<le> 0) \<and> chunk_text [] 10 = Inr []
   \<and> (''Hello'' = [] \<or> (-5::int) \<le> 0) \<and> chunk_text ''Hello'' (-5) = Inr []"
  using chunk_text_degenerate [of "''Hello''" 0] chunk_text_degenerate [of "[]" 10]
    chunk_text_degenerate [of "''Hello''" "-5"]
  by simp

text \<open>
  The copy in the sample document has no guard. On a non-empty text with a positive
  size it is the same comprehension; with a negative size, or an empty text and a size
  other than zero, the range is empty; with size zero it reaches
  \<^verbatim>\<open>range(0, len(text), 0)\<close>, which raises.
\<close>

lemma sample_chunk_text_positive:
  assumes "s \<noteq> []" and "0 < sz"
  shows "sample_chunk_text s sz = chunk_text s sz"
  using assms by (simp add: sample_chunk_text_def chunk_text_def)

lemma sample_chunk_text_empty_range:
  assumes "sz < 0 \<or> (s = [] \<and> sz \<noteq> 0)"
  shows "sample_chunk_text s sz = Inr []"
proof -
  have "range_down 0 (int (length s)) sz = []"
    by (subst range_down.simps) simp
  moreover have "range_up 0 (int (length [])) sz = []"
    by (subst range_up.simps) simp
  ultimately show ?thesis
    using assms by (auto simp: sample_chunk_text_def py_range_def py_enumerate_def)
qed

lemma sample_chunk_text_zero:
  "sample_chunk_text ''Hello'' 0 = Inl (ValueError ''range() arg 3 must not be zero'')"
  by (simp add: sample_chunk_text_def py_range_def)

section \<open>Paginator\<close>

text \<open>A slice with both bounds inside the sequence takes the positions from \<open>a\<close> up to \<open>b - 1\<close>.\<close>

lemma py_slice_inside:
  assumes "0 \<le> a" "a \<le> b" "b \<le> int (length xs)"
  shows "py_slice xs a b = map ((!) xs) [nat a..<nat b]"
proof -
  have bounds: "slice_bound (length xs) a = nat a" "slice_bound (length xs) b = nat b"
    using assms by (auto simp: slice_bound_def min_def)
  have "take (nat b - nat a) (drop (nat a) xs) = map ((!) xs) [nat a..<nat b]"
  proof (rule nth_equalityI)
    show "length (take (nat b - nat a) (drop (nat a) xs)) = length (map ((!) xs) [nat a..<nat b])"
      using assms by auto
  next
    fix i
    assume "i < length (take (nat b - nat a) (drop (nat a) xs))"
    then show "take (nat b - nat a) (drop (nat a) xs) ! i = map ((!) xs) [nat a..<nat b] ! i"
      using assms by (auto simp: add.commute)
  qed
  then show ?thesis
    by (simp add: py_slice_def bounds)
qed

lemma paginate_next_index_eq:
  "next_index (paginate_chunks cs start m) =
     (if cs \<noteq> [] \<and> max 0 start + m < int (length cs) then Some (max 0 start + m) else None)"
  by (simp add: paginate_chunks_def Let_def min_def)

lemma paginate_window:
  assumes "cs \<noteq> []" "0 \<le> m" "next_index (paginate_chunks cs start m) = Some k"
  shows "chunks (paginate_chunks cs start m) = map ((!) cs) [nat (max 0 start)..<nat k]"
    and "nat k < length cs"
proof -
  from assms(3) have k: "k = max 0 start + m" and lt: "max 0 start + m < int (length cs)"
    by (simp_all add: paginate_next_index_eq split: if_splits)
  have "py_slice cs (max 0 start) k = map ((!) cs) [nat (max 0 start)..<nat k]"
    using assms(2) k lt by (intro py_slice_inside) simp_all
  then show "chunks (paginate_chunks cs start m) = map ((!) cs) [nat (max 0 start)..<nat k]"
    using assms(1) k lt by (simp add: paginate_chunks_def Let_def min_def)
  show "nat k < length cs"
    using k lt assms(2) by simp
qed

text \<open>
  C4, as the code has it. Let \<open>s\<close> be \<open>start\<close> clamped at 0. \<open>next_index\<close> is present
  exactly when the chunk sequence is not empty and \<open>s + max_chunks < total\<close>; when
  present it equals \<open>min (s + max_chunks) total\<close>; and when moreover \<open>max_chunks\<close> is not
  negative, the page holds exactly the chunks at the positions \<open>s, ..., next_index - 1\<close>,
  so that \<open>next_index\<close> is the position of the first chunk that the page leaves out.
\<close>

theorem paginate_next_index:
  "let s = max 0 start; total = int (length cs); p = paginate_chunks cs start m in
     (next_index p \<noteq> None \<longleftrightarrow> cs \<noteq> [] \<and> s + m < total)
     \<and> (\<forall>k. next_index p = Some k \<longrightarrow>
            k = min (s + m) total
            \<and> (0 \<le> m \<longrightarrow> chunks p = map ((!) cs) [nat s..<nat k] \<and> nat k < length cs))"
proof -
  have present: "next_index (paginate_chunks cs start m) \<noteq> None
      \<longleftrightarrow> cs \<noteq> [] \<and> max 0 start + m < int (length cs)"
    by (simp add: paginate_next_index_eq)
  have val: "k = min (max 0 start + m) (int (length cs))"
    if "next_index (paginate_chunks cs start m) = Some k" for k
    using that by (simp add: paginate_next_index_eq split: if_splits)
  have win: "chunks (paginate_chunks cs start m) = map ((!) cs) [nat (max 0 start)..<nat k]
      \<and> nat k < length cs"
    if "next_index (paginate_chunks cs start m) = Some k" "0 \<le> m" for k
  proof -
    from that(1) have "cs \<noteq> []"
      by (simp add: paginate_next_index_eq split: if_splits)
    then show ?thesis
      using paginate_window [OF _ that(2) that(1)] by simp
  qed
  show ?thesis
    unfolding Let_def using present val win by blast
qed

text \<open>The second scenario of the spec: four chunks, \<open>start = 0\<close>, \<open>max_chunks = 2\<close>.\<close>

theorem paginate_next_index_witness:
  "next_index (paginate_chunks
       [\<lparr>index = 0, text' = ''chunk1''\<rparr>, \<lparr>index = 1, text' = ''chunk2''\<rparr>,
        \<lparr>index = 2, text' = ''chunk3''\<rparr>, \<lparr>index = 3, text' = ''chunk4''\<rparr>] 0 2) = Some 2
   \<and> (0::int) \<le> 2
   \<and> chunks (paginate_chunks
       [\<lparr>index = 0, text' = ''chunk1''\<rparr>, \<lparr>index = 1, text' = ''chunk2''\<rparr>,
        \<lparr>index = 2, text' = ''chunk3''\<rparr>, \<lparr>index = 3, text' = ''chunk4''\<rparr>] 0 2)
      = [\<lparr>index = 0, text' = ''chunk1''\<rparr>, \<lparr>index = 1, text' = ''chunk2''\<rparr>]"
  using paginate_next_index [of 0
       "[\<lparr>index = 0, text' = ''chunk1''\<rparr>, \<lparr>index = 1, text' = ''chunk2''\<rparr>,
        \<lparr>index = 2, text' = ''chunk3''\<rparr>, \<lparr>index = 3, text' = ''chunk4''\<rparr>]" 2]
  by (simp add: Let_def paginate_next_index_eq upt_rec)

text \<open>
  C4 as stated, with the \<open>start\<close> of the caller and for every chunk sequence, fails.
  With one chunk, \<open>start = -1\<close> and \<open>max_chunks = 1\<close> (the input of
  \<^verbatim>\<open>test_paginate_chunks_negative_start\<close>), \<open>start + max_chunks = 0\<close> is below the total 1,
  yet the page holds the chunk and \<open>next_index\<close> is absent, since \<open>start\<close> is clamped
  first. With no chunks, \<open>start = 0\<close> and \<open>max_chunks = -1\<close>, \<open>start + max_chunks = -1\<close> is
  below the total 0, yet \<open>next_index\<close> is absent, since the empty sequence returns
  early. And \<open>next_index\<close> need not be the first chunk left out: with three chunks,
  \<open>start = 2\<close> and \<open>max_chunks = -1\<close>, the page is empty, so that the first chunk left
  out is chunk 0, and \<open>next_index\<close> is 1.
\<close>

theorem paginate_next_index_counterexample:
  "\<not> (next_index (paginate_chunks [\<lparr>index = 0, text' = ''chunk1''\<rparr>] (-1) 1) \<noteq> None
        \<longleftrightarrow> (-1::int) + 1 < int (length [\<lparr>index = 0, text' = ''chunk1''\<rparr>]))
   \<and> \<not> (next_index (paginate_chunks [] 0 (-1)) \<noteq> None
        \<longleftrightarrow> (0::int) + (-1) < int (length ([]::chunk list)))
   \<and> next_index (paginate_chunks
           [\<lparr>index = 0, text' = ''chunk1''\<rparr>, \<lparr>index = 1, text' = ''chunk2''\<rparr>,
            \<lparr>index = 2, text' = ''chunk3''\<rparr>] 2 (-1)) = Some 1
   \<and> chunks (paginate_chunks
           [\<lparr>index = 0, text' = ''chunk1''\<rparr>, \<lparr>index = 1, text' = ''chunk2''\<rparr>,
            \<lparr>index = 2, text' = ''chunk3''\<rparr>] 2 (-1)) = []"
  by (simp add: paginate_chunks_def Let_def py_slice_def slice_bound_def)

text \<open>
  C5. A negative \<open>start\<close> is treated as 0: the page is the page for \<open>start = 0\<close>, in all
  three fields.
\<close>

theorem paginate_negative_start:
  assumes "start < 0"
  shows "paginate_chunks cs start m = paginate_chunks cs 0 m"
  using assms by (simp add: paginate_chunks_def max_def)

text \<open>One chunk, \<open>start = -1\<close>, \<open>max_chunks = 1\<close>: the chunk is returned and nothing follows.\<close>

theorem paginate_negative_start_witness:
  "(-1::int) < 0
   \<and> paginate_chunks [\<lparr>index = 0, text' = ''chunk1''\<rparr>] (-1) 1
       = paginate_chunks [\<lparr>index = 0, text' = ''chunk1''\<rparr>] 0 1
   \<and> paginate_chunks [\<lparr>index = 0, text' = ''chunk1''\<rparr>] (-1) 1
       = \<lparr>chunks = [\<lparr>index = 0, text' = ''chunk1''\<rparr>], next_index = None, total_chunks = 1\<rparr>"
  using paginate_negative_start [of "-1" "[\<lparr>index = 0, text' = ''chunk1''\<rparr>]" 1]
  by (simp add: paginate_chunks_def Let_def py_slice_def slice_bound_def)

text \<open>
  The copy in the sample document does not clamp: a negative \<open>start\<close> counts from the
  end of the sequence in the slice, and enters \<open>next_index\<close> as it is.
\<close>

lemma sample_paginate_negative_start:
  "sample_paginate_chunks [\<lparr>index = 0, text' = ''chunk1''\<rparr>] (-1) 1
     = \<lparr>chunks = [], next_index = Some 0, total_chunks = 1\<rparr>"
  by (simp add: sample_paginate_chunks_def Let_def py_slice_def slice_bound_def)

lemma sample_paginate_next_index:
  "next_index (sample_paginate_chunks cs start m) =
     (if start + m < int (length cs) then Some (start + m) else None)"
  by (simp add: sample_paginate_chunks_def Let_def min_def)

section \<open>Video-id extractor\<close>

lemma extract_video_id_returns: "\<exists>r. extract_video_id lib arg = Inr r"
  by (simp add: extract_video_id_def split: option.split sum.split)

text \<open>
  C7. \<open>extract_video_id\<close> never raises, whatever \<^verbatim>\<open>urlparse\<close> and \<^verbatim>\<open>parse_qs\<close> do: it
  returns a value for every argument. A missing or empty argument, a URL on which
  \<^verbatim>\<open>urlparse\<close> raises, and a URL with any other host give \<^verbatim>\<open>None\<close>. For the host
  \<^verbatim>\<open>youtu.be\<close> the result is the path without its leading slashes. For the hosts
  \<^verbatim>\<open>youtube.com\<close> and \<^verbatim>\<open>www.youtube.com\<close> it is the first value of the query parameter
  \<^verbatim>\<open>v\<close>, and \<^verbatim>\<open>None\<close> when \<^verbatim>\<open>v\<close> is absent.
\<close>

theorem extract_video_id_total:
  "(\<exists>r. extract_video_id lib arg = Inr r)
   \<and> extract_video_id lib None = Inr None
   \<and> extract_video_id lib (Some []) = Inr None
   \<and> (\<forall>u e. urlparse lib u = Inl e \<longrightarrow> extract_video_id lib (Some u) = Inr None)
   \<and> (\<forall>u p. u \<noteq> [] \<and> urlparse lib u = Inr p \<and> hostname p = Some ''youtu.be'' \<longrightarrow>
         extract_video_id lib (Some u) = Inr (Some (dropWhile (\<lambda>c. c = CHR ''/'') (path p))))
   \<and> (\<forall>u p params v vs.
         u \<noteq> [] \<and> urlparse lib u = Inr p
         \<and> (hostname p = Some ''youtube.com'' \<or> hostname p = Some ''www.youtube.com'')
         \<and> parse_qs lib (query p) = Inr params \<and> params ''v'' = Some (v # vs) \<longrightarrow>
         extract_video_id lib (Some u) = Inr (Some v))
   \<and> (\<forall>u p params.
         u \<noteq> [] \<and> urlparse lib u = Inr p
         \<and> (hostname p = Some ''youtube.com'' \<or> hostname p = Some ''www.youtube.com'')
         \<and> parse_qs lib (query p) = Inr params \<and> params ''v'' = None \<longrightarrow>
         extract_video_id lib (Some u) = Inr None)
   \<and> (\<forall>u p. u \<noteq> [] \<and> urlparse lib u = Inr p \<and> hostname p \<noteq> Some ''youtu.be''
         \<and> hostname p \<noteq> Some ''youtube.com'' \<and> hostname p \<noteq> Some ''www.youtube.com'' \<longrightarrow>
         extract_video_id lib (Some u) = Inr None)"
proof -
  have never_raises: "\<exists>r. extract_video_id lib arg = Inr r"
    by (rule extract_video_id_returns)
  have missing: "extract_video_id lib None = Inr None"
    by (simp add: extract_video_id_def)
  have empty: "extract_video_id lib (Some []) = Inr None"
    by (simp add: extract_video_id_def)
  have malformed: "\<forall>u e. urlparse lib u = Inl e \<longrightarrow> extract_video_id lib (Some u) = Inr None"
    by (auto simp: extract_video_id_def extract_video_id_body_def)
  have short: "\<forall>u p. u \<noteq> [] \<and> urlparse lib u = Inr p \<and> hostname p = Some ''youtu.be'' \<longrightarrow>
         extract_video_id lib (Some u) = Inr (Some (dropWhile (\<lambda>c. c = CHR ''/'') (path p)))"
    by (simp add: extract_video_id_def extract_video_id_body_def lstrip_def)
  have watch_v: "\<forall>u p params v vs.
         u \<noteq> [] \<and> urlparse lib u = Inr p
         \<and> (hostname p = Some ''youtube.com'' \<or> hostname p = Some ''www.youtube.com'')
         \<and> parse_qs lib (query p) = Inr params \<and> params ''v'' = Some (v # vs) \<longrightarrow>
         extract_video_id lib (Some u) = Inr (Some v)"
    by (auto simp: extract_video_id_def extract_video_id_body_def)
  have watch_none: "\<forall>u p params.
         u \<noteq> [] \<and> urlparse lib u = Inr p
         \<and> (hostname p = Some ''youtube.com'' \<or> hostname p = Some ''www.youtube.com'')
         \<and> parse_qs lib (query p) = Inr params \<and> params ''v'' = None \<longrightarrow>
         extract_video_id lib (Some u) = Inr None"
    by (auto simp: extract_video_id_def extract_video_id_body_def)
  have other: "\<forall>u p. u \<noteq> [] \<and> urlparse lib u = Inr p \<and> hostname p \<noteq> Some ''youtu.be''
         \<and> hostname p \<noteq> Some ''youtube.com'' \<and> hostname p \<noteq> Some ''www.youtube.com'' \<longrightarrow>
         extract_video_id lib (Some u) = Inr None"
    by (simp add: extract_video_id_def extract_video_id_body_def)
  show ?thesis
    by (intro conjI never_raises missing empty malformed short watch_v watch_none other)
qed

text \<open>The URLs of the tests, and a URL on which \<^verbatim>\<open>urlparse\<close> raises.\<close>

theorem extract_video_id_total_witness:
  "extract_video_id url_table (Some ''https://youtu.be/dQw4w9WgXcQ'') = Inr (Some ''dQw4w9WgXcQ'')
   \<and> extract_video_id url_table (Some ''https://www.youtube.com/watch?v=dQw4w9WgXcQ'')
       = Inr (Some ''dQw4w9WgXcQ'')
   \<and> extract_video_id url_table (Some ''https://www.youtube.com/watch'') = Inr None
   \<and> extract_video_id url_table (Some ''https://example.com/watch?v=dQw4w9WgXcQ'') = Inr None
   \<and> extract_video_id url_table (Some ''http://['') = Inr None
   \<and> extract_video_id url_table (Some []) = Inr None
   \<and> extract_video_id url_table None = Inr None"
proof -
  note total = extract_video_id_total [of url_table None]
  have short: "urlparse url_table ''https://youtu.be/dQw4w9WgXcQ''
      = Inr \<lparr>hostname = Some ''youtu.be'', path = ''/dQw4w9WgXcQ'', query = []\<rparr>"
    by (simp add: url_table_def)
  have watch: "urlparse url_table ''https://www.youtube.com/watch?v=dQw4w9WgXcQ''
      = Inr \<lparr>hostname = Some ''www.youtube.com'', path = ''/watch'', query = ''v=dQw4w9WgXcQ''\<rparr>"
    by (simp add: url_table_def)
  have bare: "urlparse url_table ''https://www.youtube.com/watch''
      = Inr \<lparr>hostname = Some ''www.youtube.com'', path = ''/watch'', query = []\<rparr>"
    by (simp add: url_table_def)
  have other: "urlparse url_table ''https://example.com/watch?v=dQw4w9WgXcQ''
      = Inr \<lparr>hostname = Some ''example.com'', path = ''/watch'', query = ''v=dQw4w9WgXcQ''\<rparr>"
    by (simp add: url_table_def)
  have bad: "urlparse url_table ''http://['' = Inl (ValueError ''Invalid IPv6 URL'')"
    by (simp add: url_table_def)
  have qs: "parse_qs url_table ''v=dQw4w9WgXcQ'' = Inr [''v'' \<mapsto> [''dQw4w9WgXcQ'']]"
    by (simp add: url_table_def)
  have qs_empty: "parse_qs url_table [] = Inr Map.empty"
    by (simp add: url_table_def)
  have 1: "extract_video_id url_table (Some ''https://youtu.be/dQw4w9WgXcQ'')
      = Inr (Some ''dQw4w9WgXcQ'')"
    using total [THEN conjunct2, THEN conjunct2, THEN conjunct2, THEN conjunct2, THEN conjunct1,
        THEN spec, THEN spec, THEN mp, of "''https://youtu.be/dQw4w9WgXcQ''"] short
    by simp
  have 2: "extract_video_id url_table (Some ''https://www.youtube.com/watch?v=dQw4w9WgXcQ'')
      = Inr (Some ''dQw4w9WgXcQ'')"
    using total [THEN conjunct2, THEN conjunct2, THEN conjunct2, THEN conjunct2, THEN conjunct2,
        THEN conjunct1, THEN spec, THEN spec, THEN spec, THEN spec, THEN spec, THEN mp,
        of "''https://www.youtube.com/watch?v=dQw4w9WgXcQ''" _ "[''v'' \<mapsto> [''dQw4w9WgXcQ'']]"
           "''dQw4w9WgXcQ''" "[]"] watch qs
    by simp
  have 3: "extract_video_id url_table (Some ''https://www.youtube.com/watch'') = Inr None"
    using total [THEN conjunct2, THEN conjunct2, THEN conjunct2, THEN conjunct2, THEN conjunct2,
        THEN conjunct2, THEN conjunct1, THEN spec, THEN spec, THEN spec, THEN mp,
        of "''https://www.youtube.com/watch''" _ "Map.empty"] bare qs_empty
    by simp
  have 4: "extract_video_id url_table (Some ''https://example.com/watch?v=dQw4w9WgXcQ'') = Inr None"
    using total [THEN conjunct2, THEN conjunct2, THEN conjunct2, THEN conjunct2, THEN conjunct2,
        THEN conjunct2, THEN conjunct2, THEN spec, THEN spec, THEN mp,
        of "''https://example.com/watch?v=dQw4w9WgXcQ''"] other
    by simp
  have 5: "extract_video_id url_table (Some ''http://['') = Inr None"
    using total [THEN conjunct2, THEN conjunct2, THEN conjunct2, THEN conjunct1,
        THEN spec, THEN spec, THEN mp, OF bad] .
  have 6: "extract_video_id url_table (Some []) = Inr None"
    using total [THEN conjunct2, THEN conjunct2, THEN conjunct1] .
  have 7: "extract_video_id url_table None = Inr None"
    using total [THEN conjunct2, THEN conjunct1] .
  show ?thesis
    by (intro conjI 1 2 3 4 5 6 7)
qed

text \<open>
  The copy in the sample document has no handler: an exception of \<^verbatim>\<open>urlparse\<close>
  leaves the function.
\<close>

lemma sample_extract_video_id_raises:
  "urlparse lib u = Inl e \<Longrightarrow> sample_extract_video_id lib u = Inl e"
  by (simp add: sample_extract_video_id_def extract_video_id_body_def)

lemma extract_short_url:
  "extract_video_id url_table (Some ''https://youtu.be/dQw4w9WgXcQ'') = Inr (Some ''dQw4w9WgXcQ'')"
  by (simp add: extract_video_id_def extract_video_id_body_def url_table_def lstrip_def)

section \<open>Language selector\<close>

text \<open>The lookups over an enumeration fail only with \<^verbatim>\<open>NoTranscriptFound\<close>.\<close>

lemma find_by_codes_error:
  "find_by_codes P vs codes = Inl e \<Longrightarrow> e = NoTranscriptFound"
  by (induction codes) (auto split: option.splits)

lemma find_by_codes_single:
  "find_by_codes P vs [c] =
     (case find (\<lambda>v. P v \<and> language_code v = c) vs of
        Some v \<Rightarrow> Inr v
      | None \<Rightarrow> Inl NoTranscriptFound)"
  by (simp split: option.split)

lemma find_by_codes_no_match:
  assumes "\<forall>v \<in> set vs. language_code v \<notin> set codes"
  shows "find_by_codes P vs codes = Inl NoTranscriptFound"
  using assms
proof (induction codes)
  case Nil
  show ?case by simp
next
  case (Cons c codes)
  have "find (\<lambda>v. P v \<and> language_code v = c) vs = None"
    using Cons.prems by (auto simp: find_None_iff)
  with Cons show ?case by simp
qed

lemma find_in_set: "find P xs = Some x \<Longrightarrow> x \<in> set xs"
  by (induction xs) (auto split: if_splits)

lemma first_success_in_set: "first_success Ps vs = Some v \<Longrightarrow> v \<in> set vs"
  by (induction Ps) (auto split: option.splits dest: find_in_set)

text \<open>The three stages of the path without a requested language, over an enumeration.\<close>

lemma manual_stage_of_list:
  "manual_stage (transcript_list_of vs) =
     Inr (case find (\<lambda>v. \<not> is_generated v \<and> language_code v = ''en'') vs of
            Some v \<Rightarrow> Some v
          | None \<Rightarrow> find (\<lambda>v. \<not> is_generated v) vs)"
  by (simp add: manual_stage_def transcript_list_of_def split: option.split)

lemma generated_stage_of_list:
  "generated_stage (transcript_list_of vs) =
     Inr (case find (\<lambda>v. is_generated v \<and> language_code v = ''en'') vs of
            Some v \<Rightarrow> Some v
          | None \<Rightarrow> find (\<lambda>v. is_generated v) vs)"
  by (simp add: generated_stage_def transcript_list_of_def split: option.split)

lemma any_stage_of_list:
  "any_stage (transcript_list_of vs) = Inr (find (\<lambda>v. True) vs)"
  by (cases vs) (simp_all add: any_stage_def transcript_list_of_def)

lemma select_default_refines:
  "select_default (transcript_list_of vs) = spec_select_default vs"
  by (simp add: select_default_def manual_stage_of_list generated_stage_of_list any_stage_of_list
      spec_select_default_def priority_rules_def split: option.split)

lemma select_default_some:
  assumes "vs \<noteq> []"
  shows "\<exists>v \<in> set vs. select_default (transcript_list_of vs) = Inr v"
proof -
  from assms obtain x xs where vs: "vs = x # xs"
    by (cases vs) auto
  then have "find (\<lambda>v. True) vs = Some x"
    by simp
  then have "first_success priority_rules vs \<noteq> None"
    by (simp add: priority_rules_def split: option.split)
  then obtain v where v: "first_success priority_rules vs = Some v"
    by auto
  from v have "v \<in> set vs"
    by (rule first_success_in_set)
  with v show ?thesis
    by (auto simp: select_default_refines spec_select_default_def)
qed

text \<open>
  C2. Without a requested language, over any enumeration of variants, the selector
  returns what the ordered rules of the spec return: the first manually created
  variant with code \<^verbatim>\<open>en\<close>, else the first manually created variant, else the first
  auto-generated variant with code \<^verbatim>\<open>en\<close>, else the first auto-generated variant,
  else the first variant. It fails, with \<^verbatim>\<open>NoTranscriptFound\<close>, exactly when there is
  no variant; otherwise it returns a variant of the enumeration.
\<close>

theorem select_default_priority:
  "select_default (transcript_list_of vs) = spec_select_default vs
   \<and> (select_default (transcript_list_of vs) = Inl NoTranscriptFound \<longleftrightarrow> vs = [])
   \<and> (\<forall>e. select_default (transcript_list_of vs) = Inl e \<longrightarrow> vs = [] \<and> e = NoTranscriptFound)
   \<and> (\<forall>v. select_default (transcript_list_of vs) = Inr v \<longrightarrow> v \<in> set vs)"
proof -
  have refines: "select_default (transcript_list_of vs) = spec_select_default vs"
    by (rule select_default_refines)
  have none: "select_default (transcript_list_of []) = Inl NoTranscriptFound"
    by (simp add: select_default_refines spec_select_default_def priority_rules_def)
  have fails: "vs = [] \<and> e = NoTranscriptFound"
    if "select_default (transcript_list_of vs) = Inl e" for e
  proof (cases "vs = []")
    case True
    with that none show ?thesis by simp
  next
    case False
    from select_default_some [OF False] that show ?thesis by auto
  qed
  have member: "v \<in> set vs" if "select_default (transcript_list_of vs) = Inr v" for v
  proof (cases "vs = []")
    case True
    with that none show ?thesis by simp
  next
    case False
    from select_default_some [OF False] that show ?thesis by auto
  qed
  have iff: "select_default (transcript_list_of vs) = Inl NoTranscriptFound \<longleftrightarrow> vs = []"
    using none fails by auto
  from refines iff fails member show ?thesis
    by blast
qed

text \<open>
  The fourth scenario of the spec: the only variant is Spanish and auto-generated, and
  it is selected. The sixth: no variant at all.
\<close>

theorem select_default_priority_witness:
  "select_default (transcript_list_of [spanish]) = Inr spanish
   \<and> language_code spanish = ''es'' \<and> is_generated spanish
   \<and> spec_select_default [spanish] = Inr spanish
   \<and> select_default (transcript_list_of []) = Inl NoTranscriptFound"
proof -
  have "spec_select_default [spanish] = Inr spanish"
    by (simp add: spec_select_default_def priority_rules_def spanish_def)
  moreover have "spec_select_default [] = Inl NoTranscriptFound"
    by (simp add: spec_select_default_def priority_rules_def)
  moreover have "language_code spanish = ''es''" "is_generated spanish"
    by (simp_all add: spanish_def)
  ultimately show ?thesis
    using select_default_priority [of "[spanish]"] select_default_priority [of "[]"]
    by simp
qed

text \<open>When the direct lookup raises \<^verbatim>\<open>NoTranscriptFound\<close>, the translation fallback decides.\<close>

lemma select_requested_fallback:
  assumes "find_transcript tlist (first # rest) = Inl NoTranscriptFound"
  shows "select_requested api tlist first rest w = translation_fallback api tlist first w"
  using assms by (simp add: select_requested_def)

lemma translation_fallback_of_list:
  "translation_fallback api (transcript_list_of vs) first w =
     (case find (\<lambda>t. is_translatable t \<and> first \<in> set (translation_languages t)) vs of
        None \<Rightarrow> (Inl NoTranscriptFound, w)
      | Some t \<Rightarrow>
          (case translate api t first w of
             (Inr d, w') \<Rightarrow> (Inr d, w')
           | (Inl e, w') \<Rightarrow> (Inl NoTranscriptFound, w')))"
  by (simp add: translation_fallback_def translation_attempt_def transcript_list_of_def
      split: option.split prod.split sum.split)

text \<open>
  C3. When no variant of the enumeration has one of the requested codes, the selector
  takes the first variant that is translatable and has the first requested code among
  its translation targets, and translates it into that code; the derivative is the
  result (if the translation call raises, the result is \<^verbatim>\<open>NoTranscriptFound\<close>, see C9).
  Without such a variant the result is \<^verbatim>\<open>NoTranscriptFound\<close>. The codes after the
  first play no part: any other tail without a direct match gives the same result.
\<close>

theorem translation_uses_first_code:
  assumes "\<forall>v \<in> set vs. language_code v \<notin> set (first # rest)"
  shows "select_requested api (transcript_list_of vs) first rest w =
           (case find (\<lambda>t. is_translatable t \<and> first \<in> set (translation_languages t)) vs of
              None \<Rightarrow> (Inl NoTranscriptFound, w)
            | Some t \<Rightarrow>
                (case translate api t first w of
                   (Inr d, w') \<Rightarrow> (Inr d, w')
                 | (Inl e, w') \<Rightarrow> (Inl NoTranscriptFound, w')))
         \<and> (\<forall>rest'. (\<forall>v \<in> set vs. language_code v \<notin> set (first # rest')) \<longrightarrow>
               select_requested api (transcript_list_of vs) first rest' w
                 = select_requested api (transcript_list_of vs) first rest w)"
proof -
  have direct: "find_transcript (transcript_list_of vs) (first # codes) = Inl NoTranscriptFound"
    if "\<forall>v \<in> set vs. language_code v \<notin> set (first # codes)" for codes
    unfolding transcript_list_of_def
    by (simp del: find_by_codes.simps add: find_by_codes_no_match [OF that])
  have run: "select_requested api (transcript_list_of vs) first codes w
      = translation_fallback api (transcript_list_of vs) first w"
    if "\<forall>v \<in> set vs. language_code v \<notin> set (first # codes)" for codes
    using direct [OF that] by (rule select_requested_fallback)
  show ?thesis
    using run [OF assms] run by (simp add: translation_fallback_of_list)
qed

text \<open>
  The fifth scenario of the spec: \<^verbatim>\<open>en\<close> is requested (here before \<^verbatim>\<open>de\<close>), and the only
  variant is Vietnamese, translatable into \<^verbatim>\<open>en\<close>. With only a Spanish variant that is
  not translatable, nothing is found and no call is made.
\<close>

theorem translation_uses_first_code_witness:
  "language_code vietnamese \<notin> set [''en'', ''de'']
   \<and> select_requested (scenario_api (Inr (transcript_list_of [vietnamese])) derivative (fetched_with [])) 
        (transcript_list_of [vietnamese]) ''en'' [''de''] []
      = (Inr \<lparr>language = ''Vietnamese'', language_code = ''en'', is_generated = True,
              is_translatable = False, translation_languages = []\<rparr>,
         [TranslateCall ''vi'' ''en''])
   \<and> language_code spanish \<notin> set [''en'', ''de'']
   \<and> select_requested (scenario_api (Inr (transcript_list_of [spanish])) derivative (fetched_with []))
        (transcript_list_of [spanish]) ''en'' [''de''] []
      = (Inl NoTranscriptFound, [])"
proof -
  have h1: "\<forall>v \<in> set [vietnamese]. language_code v \<notin> set (''en'' # [''de''])"
    by (simp add: vietnamese_def)
  have h2: "\<forall>v \<in> set [spanish]. language_code v \<notin> set (''en'' # [''de''])"
    by (simp add: spanish_def)
  have r1: "select_requested (scenario_api (Inr (transcript_list_of [vietnamese])) derivative (fetched_with []))
        (transcript_list_of [vietnamese]) ''en'' [''de''] []
      = (Inr \<lparr>language = ''Vietnamese'', language_code = ''en'', is_generated = True,
              is_translatable = False, translation_languages = []\<rparr>,
         [TranslateCall ''vi'' ''en''])"
    using translation_uses_first_code [OF h1, THEN conjunct1,
        of "scenario_api (Inr (transcript_list_of [vietnamese])) derivative (fetched_with [])" "[]"]
    by (simp add: vietnamese_def scenario_api_def derivative_def)
  have r2: "select_requested (scenario_api (Inr (transcript_list_of [spanish])) derivative (fetched_with []))
        (transcript_list_of [spanish]) ''en'' [''de''] []
      = (Inl NoTranscriptFound, [])"
    using translation_uses_first_code [OF h2, THEN conjunct1,
        of "scenario_api (Inr (transcript_list_of [spanish])) derivative (fetched_with [])" "[]"]
    by (simp add: spanish_def)
  from h1 h2 r1 r2 show ?thesis
    by simp
qed

section \<open>Request boundary\<close>



lemma caption_select_fails:
  assumes "extract_video_id lib (Some (url req)) = Inr (Some vid)" "vid \<noteq> []"
    and "list_transcripts api vid w = (Inr tlist, w1)"
    and "select_transcript api tlist (languages_param req) w1 = (Inl e, w2)"
  shows "get_youtube_caption lib api req w = (Inl (handle_exception e), w2)"
  using assms by (simp add: get_youtube_caption_def caption_body_def)


lemma caption_fetched:
  assumes "extract_video_id lib (Some (url req)) = Inr (Some vid)" "vid \<noteq> []"
    and "list_transcripts api vid w = (Inr tlist, w1)"
    and "select_transcript api tlist (languages_param req) w1 = (Inr t, w2)"
    and "fetch api t w2 = (Inr ft, w3)"
  shows "get_youtube_caption lib api req w =
           (case build_payload vid tlist ft req of
              Inl e \<Rightarrow> (Inl (handle_exception e), w3)
            | Inr p \<Rightarrow> (Inr p, w3))"
  using assms by (simp add: get_youtube_caption_def caption_body_def split: sum.split)

lemma caption_success:
  assumes "get_youtube_caption lib api req w = (Inr p, w')"
  shows "\<exists>vid tlist w1 t w2 ft.
           extract_video_id lib (Some (url req)) = Inr (Some vid) \<and> vid \<noteq> []
           \<and> list_transcripts api vid w = (Inr tlist, w1)
           \<and> select_transcript api tlist (languages_param req) w1 = (Inr t, w2)
           \<and> fetch api t w2 = (Inr ft, w')
           \<and> build_payload vid tlist ft req = Inr p"
  using assms
  by (auto simp: get_youtube_caption_def caption_body_def
      split: sum.splits option.splits if_splits prod.splits)









text \<open>The bare handler of the translation fallback, and the two places that can raise.\<close>

lemma translation_fallback_failure:
  assumes "translation_attempt api tlist first w = (Inl e, w')"
  shows "translation_fallback api tlist first w = (Inl NoTranscriptFound, w')"
  using assms by (simp add: translation_fallback_def)

lemma translation_attempt_scan_raises:
  assumes "iter tlist = Inl e"
  shows "translation_attempt api tlist first w = (Inl e, w)"
  using assms by (simp add: translation_attempt_def)

lemma translation_attempt_translate_raises:
  assumes "iter tlist = Inr vs"
    and "find (\<lambda>t. is_translatable t \<and> first \<in> set (translation_languages t)) vs = Some t"
    and "translate api t first w = (Inl e, w')"
  shows "translation_attempt api tlist first w = (Inl e, w')"
  using assms by (simp add: translation_attempt_def)

lemma select_transcript_requested:
  assumes "requested_languages lang = Some (first, rest)"
  shows "select_transcript api tlist lang w = select_requested api tlist first rest w"
  using assms by (simp add: select_transcript_def)

text \<open>
  C9. On the path with requested languages, once the direct lookup has raised
  \<^verbatim>\<open>NoTranscriptFound\<close>: whatever exception the fallback raises becomes
  \<^verbatim>\<open>NoTranscriptFound\<close>; so when the iteration over the variants raises, or the
  translation call raises, the response is the 404 of "no transcript available", and
  not a 500.
\<close>

theorem translation_failures_give_404:
  assumes "extract_video_id lib (Some (url req)) = Inr (Some vid)" and "vid \<noteq> []"
    and "list_transcripts api vid w = (Inr tlist, w1)"
    and "requested_languages (languages_param req) = Some (first, rest)"
    and "find_transcript tlist (first # rest) = Inl NoTranscriptFound"
  shows "(\<forall>e w2. translation_attempt api tlist first w1 = (Inl e, w2) \<longrightarrow>
            select_requested api tlist first rest w1 = (Inl NoTranscriptFound, w2))
         \<and> (\<forall>e. iter tlist = Inl e \<longrightarrow>
              get_youtube_caption lib api req w
                = (Inl \<lparr>status_code = 404,
                     detail = ''No transcript available for this video in the requested language(s).''\<rparr>,
                   w1))
         \<and> (\<forall>vs t e w2.
              iter tlist = Inr vs
              \<and> find (\<lambda>t. is_translatable t \<and> first \<in> set (translation_languages t)) vs = Some t
              \<and> translate api t first w1 = (Inl e, w2) \<longrightarrow>
              get_youtube_caption lib api req w
                = (Inl \<lparr>status_code = 404,
                     detail = ''No transcript available for this video in the requested language(s).''\<rparr>,
                   w2))"
proof -
  have converted: "select_requested api tlist first rest w1 = (Inl NoTranscriptFound, w2)"
    if "translation_attempt api tlist first w1 = (Inl e, w2)" for e w2
    using translation_fallback_failure [OF that]
    by (simp only: select_requested_fallback [OF assms(5)])
  have response: "get_youtube_caption lib api req w
      = (Inl \<lparr>status_code = 404,
           detail = ''No transcript available for this video in the requested language(s).''\<rparr>,
         w2)"
    if "translation_attempt api tlist first w1 = (Inl e, w2)" for e w2
  proof -
    have "select_transcript api tlist (languages_param req) w1 = (Inl NoTranscriptFound, w2)"
      by (simp only: select_transcript_requested [OF assms(4)] converted [OF that])
    from caption_select_fails [OF assms(1,2,3) this] show ?thesis
      by simp
  qed
  have scan: "get_youtube_caption lib api req w
      = (Inl \<lparr>status_code = 404,
           detail = ''No transcript available for this video in the requested language(s).''\<rparr>,
         w1)"
    if "iter tlist = Inl e" for e
    using response [OF translation_attempt_scan_raises [OF that]] .
  have call: "get_youtube_caption lib api req w
      = (Inl \<lparr>status_code = 404,
           detail = ''No transcript available for this video in the requested language(s).''\<rparr>,
         w2)"
    if "iter tlist = Inr vs"
      "find (\<lambda>t. is_translatable t \<and> first \<in> set (translation_languages t)) vs = Some t"
      "translate api t first w1 = (Inl e, w2)" for vs t e w2
    using response [OF translation_attempt_translate_raises [OF that]] .
  show ?thesis
    using converted scan call by blast
qed

text \<open>
  A translation call that is blocked, and a transcript list whose iteration raises:
  both exceptions are of the kind that the boundary would map to 500.
\<close>

theorem translation_failures_give_404_witness:
  "get_youtube_caption url_table
      (scenario_api (Inr (transcript_list_of [vietnamese])) blocked (fetched_with []))
      (caption_request_of ''https://youtu.be/dQw4w9WgXcQ'' (Some 10) (Some (LangStr ''en''))) []
     = (Inl \<lparr>status_code = 404,
          detail = ''No transcript available for this video in the requested language(s).''\<rparr>,
        [ListCall ''dQw4w9WgXcQ'', TranslateCall ''vi'' ''en''])
   \<and> get_youtube_caption url_table
      (scenario_api (Inr unreadable_list) derivative (fetched_with []))
      (caption_request_of ''https://youtu.be/dQw4w9WgXcQ'' (Some 10) (Some (LangList [''en'', ''de'']))) []
     = (Inl \<lparr>status_code = 404,
          detail = ''No transcript available for this video in the requested language(s).''\<rparr>,
        [ListCall ''dQw4w9WgXcQ''])"
proof -
  let ?id = "''dQw4w9WgXcQ''"
  let ?req1 = "caption_request_of ''https://youtu.be/dQw4w9WgXcQ'' (Some 10) (Some (LangStr ''en''))"
  let ?req2 = "caption_request_of ''https://youtu.be/dQw4w9WgXcQ'' (Some 10)
                 (Some (LangList [''en'', ''de'']))"
  let ?api1 = "scenario_api (Inr (transcript_list_of [vietnamese])) blocked (fetched_with [])"
  let ?api2 = "scenario_api (Inr unreadable_list) derivative (fetched_with [])"
  have id: "extract_video_id url_table (Some (url ?req1)) = Inr (Some ?id)"
    "extract_video_id url_table (Some (url ?req2)) = Inr (Some ?id)"
    by (simp_all add: caption_request_of_def extract_short_url)
  have nonempty: "?id \<noteq> []"
    by simp
  have l1: "list_transcripts ?api1 ?id [] = (Inr (transcript_list_of [vietnamese]), [ListCall ?id])"
    by (simp add: scenario_api_def)
  have r1: "requested_languages (languages_param ?req1) = Some (''en'', [])"
    by (simp add: requested_languages_def caption_request_of_def)
  have d1: "find_transcript (transcript_list_of [vietnamese]) (''en'' # []) = Inl NoTranscriptFound"
    by (simp add: transcript_list_of_def vietnamese_def)
  have i1: "iter (transcript_list_of [vietnamese]) = Inr [vietnamese]"
    by (simp add: transcript_list_of_def)
  have f1: "find (\<lambda>t. is_translatable t \<and> ''en'' \<in> set (translation_languages t)) [vietnamese]
      = Some vietnamese"
    by (simp add: vietnamese_def)
  have t1: "translate ?api1 vietnamese ''en'' [ListCall ?id]
      = (Inl (OtherException ''request blocked''), [ListCall ?id, TranslateCall ''vi'' ''en''])"
    by (simp add: scenario_api_def blocked_def vietnamese_def)
  have first: "get_youtube_caption url_table ?api1 ?req1 []
     = (Inl \<lparr>status_code = 404,
          detail = ''No transcript available for this video in the requested language(s).''\<rparr>,
        [ListCall ?id, TranslateCall ''vi'' ''en''])"
    using translation_failures_give_404 [OF id(1) nonempty l1 r1 d1] i1 f1 t1
    by blast
  have l2: "list_transcripts ?api2 ?id [] = (Inr unreadable_list, [ListCall ?id])"
    by (simp add: scenario_api_def)
  have r2: "requested_languages (languages_param ?req2) = Some (''en'', [''de''])"
    by (simp add: requested_languages_def caption_request_of_def)
  have d2: "find_transcript unreadable_list (''en'' # [''de'']) = Inl NoTranscriptFound"
    by (simp add: unreadable_list_def)
  have i2: "iter unreadable_list = Inl (OtherException ''connection reset'')"
    by (simp add: unreadable_list_def)
  have second: "get_youtube_caption url_table ?api2 ?req2 []
     = (Inl \<lparr>status_code = 404,
          detail = ''No transcript available for this video in the requested language(s).''\<rparr>,
        [ListCall ?id])"
    using translation_failures_give_404 [OF id(2) nonempty l2 r2 d2] i2
    by blast
  show ?thesis
    by (intro conjI first second)
qed

section \<open>Response assembly\<close>

lemma length_join_space:
  "length (join '' '' xs) = sum_list (map length xs) + (length xs - 1)"
  by (induction "'' ''" xs rule: join.induct) simp_all

lemma build_payload_success:
  assumes "build_payload vid tlist ft req = Inr p"
  shows "\<exists>all_chunks pg.
           call_chunk_text (join '' '' (snippets ft)) (chunk_size req) = Inr all_chunks
           \<and> call_paginate_chunks all_chunks (start_index req) (max_chunks req) = Inr pg
           \<and> chunks p = chunks pg \<and> next_index p = next_index pg
           \<and> total_chunks p = total_chunks pg
           \<and> total_characters p = length (join '' '' (snippets ft))"
  using assms by (auto simp: build_payload_def Let_def split: sum.splits)

text \<open>
  C10. A successful response comes from one fetched transcript; \<open>total_characters\<close> is
  the length of its snippet texts joined by single spaces, that is the sum of their
  lengths plus one less than their number (and 0 without snippets); and the chunks of
  the page are a page of the chunks of that same joined string.
\<close>

theorem total_characters_of_joined_text:
  assumes "get_youtube_caption lib api req w = (Inr p, w')"
  shows "\<exists>t w2 ft all_chunks pg.
           fetch api t w2 = (Inr ft, w')
           \<and> total_characters p = length (join '' '' (snippets ft))
           \<and> total_characters p
               = sum_list (map length (snippets ft)) + (length (snippets ft) - 1)
           \<and> (snippets ft = [] \<longrightarrow> total_characters p = 0)
           \<and> call_chunk_text (join '' '' (snippets ft)) (chunk_size req) = Inr all_chunks
           \<and> call_paginate_chunks all_chunks (start_index req) (max_chunks req) = Inr pg
           \<and> chunks p = chunks pg \<and> next_index p = next_index pg
           \<and> total_chunks p = total_chunks pg"
proof -
  from caption_success [OF assms] obtain vid tlist t w2 ft
    where fetched: "fetch api t w2 = (Inr ft, w')"
      and built: "build_payload vid tlist ft req = Inr p"
    by blast
  from build_payload_success [OF built] obtain all_chunks pg
    where chunked: "call_chunk_text (join '' '' (snippets ft)) (chunk_size req) = Inr all_chunks"
      and paged: "call_paginate_chunks all_chunks (start_index req) (max_chunks req) = Inr pg"
      and same: "chunks p = chunks pg" "next_index p = next_index pg"
        "total_chunks p = total_chunks pg"
      and total: "total_characters p = length (join '' '' (snippets ft))"
    by blast
  have count: "total_characters p
      = sum_list (map length (snippets ft)) + (length (snippets ft) - 1)"
    using total by (simp only: length_join_space)
  have zero: "snippets ft = [] \<longrightarrow> total_characters p = 0"
    using count by simp
  from fetched total count zero chunked paged same show ?thesis
    by blast
qed

text \<open>Two snippets of 11 and 14 characters, chunks of 10: 26 characters in 3 chunks.\<close>

theorem total_characters_of_joined_text_witness:
  "get_youtube_caption url_table
      (scenario_api (Inr (transcript_list_of [english])) derivative
         (fetched_with [''Hello world'', ''this is a test'']))
      (caption_request_of ''https://www.youtube.com/watch?v=dQw4w9WgXcQ'' (Some 10) None) []
     = (Inr \<lparr>chunks = [\<lparr>index = 0, text' = ''Hello worl''\<rparr>, \<lparr>index = 1, text' = ''d this is ''\<rparr>],
             next_index = Some 2,
             total_chunks = 3,
             video_id = ''dQw4w9WgXcQ'',
             total_characters = 26,
             selected_language = ''English'',
             selected_language_code = ''en'',
             selected_is_generated = False,
             available_languages =
               [\<lparr>info_language = ''English'', info_language_code = ''en'',
                 info_is_generated = False, info_is_translatable = False,
                 info_translation_languages = None\<rparr>]\<rparr>,
        [ListCall ''dQw4w9WgXcQ'', FetchCall ''en''])
   \<and> (26::nat) = sum_list (map length [''Hello world'', ''this is a test''])
                     + (length [''Hello world'', ''this is a test''] - 1)"
proof -
  let ?id = "''dQw4w9WgXcQ''"
  let ?req = "caption_request_of ''https://www.youtube.com/watch?v=dQw4w9WgXcQ'' (Some 10) None"
  let ?api = "scenario_api (Inr (transcript_list_of [english])) derivative
                (fetched_with [''Hello world'', ''this is a test''])"
  let ?ft = "\<lparr>snippets = [''Hello world'', ''this is a test''], fetched_language = ''English'',
               fetched_language_code = ''en'', fetched_is_generated = False\<rparr>"
  let ?p = "\<lparr>chunks = [\<lparr>index = 0, text' = ''Hello worl''\<rparr>, \<lparr>index = 1, text' = ''d this is ''\<rparr>],
             next_index = Some 2,
             total_chunks = 3,
             video_id = ''dQw4w9WgXcQ'',
             total_characters = 26,
             selected_language = ''English'',
             selected_language_code = ''en'',
             selected_is_generated = False,
             available_languages =
               [\<lparr>info_language = ''English'', info_language_code = ''en'',
                 info_is_generated = False, info_is_translatable = False,
                 info_translation_languages = None\<rparr>]\<rparr>"
  have id: "extract_video_id url_table (Some (url ?req)) = Inr (Some ?id)"
    by (simp add: caption_request_of_def extract_video_id_def extract_video_id_body_def
        url_table_def)
  have l: "list_transcripts ?api ?id [] = (Inr (transcript_list_of [english]), [ListCall ?id])"
    by (simp add: scenario_api_def)
  have "select_default (transcript_list_of [english]) = Inr english"
    by (simp add: select_default_def manual_stage_def transcript_list_of_def english_def)
  then have s: "select_transcript ?api (transcript_list_of [english]) (languages_param ?req)
        [ListCall ?id] = (Inr english, [ListCall ?id])"
    by (simp add: select_transcript_def requested_languages_def caption_request_of_def)
  have f: "fetch ?api english [ListCall ?id] = (Inr ?ft, [ListCall ?id, FetchCall ''en''])"
    by (simp add: scenario_api_def fetched_with_def english_def)
  have joined: "join '' '' (snippets ?ft) = ''Hello world this is a test''"
    by simp
  have c: "call_chunk_text ''Hello world this is a test'' (chunk_size ?req) =
      Inr [\<lparr>index = 0, text' = ''Hello worl''\<rparr>, \<lparr>index = 1, text' = ''d this is ''\<rparr>,
           \<lparr>index = 2, text' = ''a test''\<rparr>]"
    by (simp add: call_chunk_text_def caption_request_of_def chunk_text_scenario)
  have pg: "call_paginate_chunks
       [\<lparr>index = 0, text' = ''Hello worl''\<rparr>, \<lparr>index = 1, text' = ''d this is ''\<rparr>,
        \<lparr>index = 2, text' = ''a test''\<rparr>] (start_index ?req) (max_chunks ?req)
      = Inr \<lparr>chunks = [\<lparr>index = 0, text' = ''Hello worl''\<rparr>, \<lparr>index = 1, text' = ''d this is ''\<rparr>],
             next_index = Some 2, total_chunks = 3\<rparr>"
    by (simp add: call_paginate_chunks_def caption_request_of_def paginate_chunks_def Let_def
        py_slice_def slice_bound_def)
  have it: "iter (transcript_list_of [english]) = Inr [english]"
    by (simp add: transcript_list_of_def)
  have b: "build_payload ?id (transcript_list_of [english]) ?ft ?req = Inr ?p"
    by (simp only: build_payload_def Let_def joined c sum.case pg it)
      (simp add: lang_info_of_def english_def)
  have run: "get_youtube_caption url_table ?api ?req [] = (Inr ?p, [ListCall ?id, FetchCall ''en''])"
    using caption_fetched [OF id _ l s f] b by simp
  have "(26::nat) = sum_list (map length [''Hello world'', ''this is a test''])
                     + (length [''Hello world'', ''this is a test''] - 1)"
    using total_characters_of_joined_text [OF run] f by simp
  with run show ?thesis
    by (intro conjI)
qed

text \<open>The same holds for the payload of the sample document.\<close>

lemma sample_total_characters:
  assumes "sample_build_payload vid entries chunk_sz max_chunks' start = Inr p"
  shows "sample_total_characters p = sum_list (map length entries) + (length entries - 1)"
    and "\<exists>all_chunks. sample_chunk_text (join '' '' entries) chunk_sz = Inr all_chunks
           \<and> chunks p = chunks (sample_paginate_chunks all_chunks start max_chunks')"
  using assms
  by (auto simp: sample_build_payload_def Let_def length_join_space split: sum.splits)

end
